theory Spec2Isabelle
  imports Main "HOL-Library.DAList"
begin

section \<open>The ogr2ogr command builder of gdaltools/ogr2ogrcmd.py\<close>

text \<open>
  The class \<open>Ogr2ogr\<close> collects an input and an output data source, three pairs of option
  dictionaries and two modes, and \<open>execute\<close> turns them into the argument list of the
  external \<open>ogr2ogr\<close> program. The embedding keeps the Python attribute names; a leading
  underscore of the source (\<open>_geom_type\<close>) is written \<open>priv_\<close>.
\<close>

subsection \<open>Python values: optional strings, string methods, dictionaries\<close>

text \<open>
  A parameter that defaults to \<open>None\<close> is a \<open>string option\<close>. Python's truth test
  (\<open>if encoding:\<close>) is false for \<open>None\<close> and for the empty string.
\<close>

fun truthy :: "string option \<Rightarrow> bool" where
  "truthy None = False"
| "truthy (Some s) = (s \<noteq> [])"

definition ascii_uppercase :: string where
  "ascii_uppercase = ''ABCDEFGHIJKLMNOPQRSTUVWXYZ''"

definition ascii_lowercase :: string where
  "ascii_lowercase = ''abcdefghijklmnopqrstuvwxyz''"

text \<open>\<open>str.lower()\<close> on a byte string: the 26 ASCII capitals are mapped, every other byte stays.\<close>

definition lower_char :: "char \<Rightarrow> char" where
  "lower_char c = (case map_of (zip ascii_uppercase ascii_lowercase) c of Some l \<Rightarrow> l | None \<Rightarrow> c)"

definition lower :: "string \<Rightarrow> string" where
  "lower s = map lower_char s"

definition startswith :: "string \<Rightarrow> string \<Rightarrow> bool" where
  "startswith s p = (take (length p) s = p)"

definition endswith :: "string \<Rightarrow> string \<Rightarrow> bool" where
  "endswith s x = (length x \<le> length s \<and> drop (length s - length x) s = x)"

text \<open>\<open>os.path.basename\<close> (posixpath): everything after the last slash.\<close>

definition basename :: "string \<Rightarrow> string" where
  "basename p = rev (takeWhile (\<lambda>c. c \<noteq> CHR ''/'') (rev p))"

text \<open>\<open>" ".join(xs)\<close>\<close>

fun join :: "string \<Rightarrow> string list \<Rightarrow> string" where
  "join sep [] = []"
| "join sep [x] = x"
| "join sep (x # y # ys) = x @ sep @ join sep (y # ys)"

text \<open>
  A dictionary is an association list with unique keys, iterated in the order of the list.
  \<open>d[k] = v\<close> keeps the place of a key that is present and appends a new one. (The
  source is Python 2, where the order of \<open>iteritems\<close> is some fixed order of the keys; the
  model takes the order of insertion, and the properties below speak of the order inside an
  option section only through \<open>iteritems\<close>.) Dictionaries are mutable objects shared by
  reference, so they live in a store: a reference is an index into the list of all
  dictionaries allocated so far, \<open>copy\<close> allocates, \<open>d[k] = v\<close> and \<open>update\<close> change
  the dictionary in its place.
\<close>

type_synonym dict = "(string, string) alist"
type_synonym ref = nat
type_synonym heap = "dict list"

definition new_dict :: "heap \<Rightarrow> ref \<times> heap" where
  "new_dict h = (length h, h @ [DAList.empty])"

definition dict_copy :: "ref \<Rightarrow> heap \<Rightarrow> ref \<times> heap" where
  "dict_copy d h = (length h, h @ [h ! d])"

definition dict_setitem :: "ref \<Rightarrow> string \<Rightarrow> string \<Rightarrow> heap \<Rightarrow> heap" where
  "dict_setitem d k v h = h[d := DAList.update k v (h ! d)]"

text \<open>\<open>d.update(other)\<close>: every item of \<open>other\<close> is stored into \<open>d\<close>.\<close>

definition merge :: "dict \<Rightarrow> dict \<Rightarrow> dict" where
  "merge d other = fold (\<lambda>(k, v) acc. DAList.update k v acc) (DAList.impl_of other) d"

definition dict_update :: "ref \<Rightarrow> ref \<Rightarrow> heap \<Rightarrow> heap" where
  "dict_update d other h = h[d := merge (h ! d) (h ! other)]"

definition iteritems :: "ref \<Rightarrow> heap \<Rightarrow> (string \<times> string) list" where
  "iteritems d h = DAList.impl_of (h ! d)"

definition list_extend :: "string list \<Rightarrow> string list \<Rightarrow> string list" where
  "list_extend args xs = args @ xs"

subsection \<open>Connection strings\<close>

text \<open>
  The module \<open>basetypes\<close> is not part of the sources at hand. Of a \<open>ConnectionString\<close>
  the builder uses \<open>encode()\<close>, \<open>unicode(...)\<close> and the test
  \<open>isinstance(..., FileConnectionString)\<close>; the record holds these three observations.
\<close>

record ConnectionString =
  cs_is_file :: bool
  cs_encode :: string
  cs_unicode :: string

text \<open>
  Modelled from the spec: the constructor \<open>FileConnectionString(path)\<close> of \<open>basetypes\<close>.
  A file reference is backed by a filesystem path, which is both its form for execution and
  its form for display.
\<close>

definition FileConnectionString :: "string \<Rightarrow> ConnectionString" where
  "FileConnectionString path = \<lparr>cs_is_file = True, cs_encode = path, cs_unicode = path\<rparr>"

subsection \<open>The builder\<close>

datatype error = AttributeError

definition MODE_LAYER_CREATE :: string where "MODE_LAYER_CREATE = ''CR''"
definition MODE_LAYER_APPEND :: string where "MODE_LAYER_APPEND = ''AP''"
definition MODE_LAYER_OVERWRITE :: string where "MODE_LAYER_OVERWRITE = ''OW''"

definition MODE_DS_CREATE :: string where "MODE_DS_CREATE = ''CR''"
definition MODE_DS_UPDATE :: string where "MODE_DS_UPDATE = ''UP''"
definition MODE_DS_CREATE_OR_UPDATE :: string where "MODE_DS_CREATE_OR_UPDATE = ''CU''"

definition OGR2OGR_PATH :: string where "OGR2OGR_PATH = ''/usr/bin/ogr2ogr''"

text \<open>
  \<open>set_input\<close> assigns \<open>in_ds\<close>, \<open>in_table\<close>, \<open>in_srs\<close> and \<open>in_encoding\<close> together and
  \<open>set_output\<close> assigns \<open>out_ds\<close>, \<open>out_file_type\<close>, \<open>out_table\<close> and \<open>out_srs\<close> together;
  before the call the attributes do not exist and reading one raises \<open>AttributeError\<close>.
  Each group is therefore an optional record.
\<close>

record in_settings =
  in_ds :: ConnectionString
  in_table :: "string option"
  in_srs :: "string option"
  in_encoding :: "string option"

record out_settings =
  out_ds :: ConnectionString
  out_file_type :: string
  out_table :: "string option"
  out_srs :: "string option"

record Ogr2ogr =
  command :: string
  layer_mode :: string
  data_source_mode :: string
  priv_dataset_creation_options :: ref
  priv_layer_creation_options :: ref
  priv_dataset_creation_options_internal :: ref
  priv_layer_creation_options_internal :: ref
  priv_config_options :: ref
  priv_config_options_internal :: ref
  priv_geom_type :: "string option"
  input_cfg :: "in_settings option"
  output_cfg :: "out_settings option"

type_synonym state = "heap \<times> Ogr2ogr"

text \<open>
  \<open>__init__\<close>. \<open>Wrapper.__init__\<close> is outside the sources; what it leaves in
  \<open>self.command\<close> is the parameter \<open>cmd\<close> (\<open>_get_default_command\<close> offers
  \<open>OGR2OGR_PATH\<close>). The six dictionaries are allocated in the order of the source.
\<close>

definition get_default_command :: string where
  "get_default_command = OGR2OGR_PATH"

definition init :: "string \<Rightarrow> heap \<Rightarrow> state" where
  "init cmd h =
     (let (dsco, h) = new_dict h;
          (lco, h) = new_dict h;
          (dsco_internal, h) = new_dict h;
          (lco_internal, h) = new_dict h;
          (config, h) = new_dict h;
          (config_internal, h) = new_dict h
      in (h, \<lparr>command = cmd,
               layer_mode = MODE_LAYER_CREATE,
               data_source_mode = MODE_DS_CREATE,
               priv_dataset_creation_options = dsco,
               priv_layer_creation_options = lco,
               priv_dataset_creation_options_internal = dsco_internal,
               priv_layer_creation_options_internal = lco_internal,
               priv_config_options = config,
               priv_config_options_internal = config_internal,
               priv_geom_type = None,
               input_cfg = None,
               output_cfg = None\<rparr>))"

definition set_input ::
  "string + ConnectionString \<Rightarrow> string option \<Rightarrow> string option \<Rightarrow> string option \<Rightarrow> state \<Rightarrow> state" where
  "set_input input_ds table_name srs encoding st =
     (case st of (h, self) \<Rightarrow>
        let ds = (case input_ds of Inr c \<Rightarrow> c | Inl path \<Rightarrow> FileConnectionString path);
            self = self\<lparr>input_cfg := Some \<lparr>in_ds = ds, in_table = table_name,
                                             in_srs = srs, in_encoding = encoding\<rparr>\<rparr>;
            h = (if truthy encoding
                 then dict_setitem (priv_config_options_internal self) ''SHAPE_ENCODING'' (the encoding) h
                 else h)
        in (h, self))"

text \<open>The \<open>if\<close>/\<open>elif\<close> chain of \<open>set_output\<close>, on the lower-cased \<open>encode()\<close> of the output.\<close>

definition infer_file_type :: "string \<Rightarrow> string" where
  "infer_file_type dslower =
     (if endswith dslower ''.shp'' then ''ESRI Shapefile''
      else if startswith dslower ''pg:'' then ''PostgreSQL''
      else if endswith dslower ''.sqlite'' then ''SQLite''
      else if endswith dslower ''.json'' \<or> endswith dslower ''.geojson'' then ''GeoJSON''
      else if endswith dslower ''.gml'' then ''GML''
      else if endswith dslower ''.csv'' then ''CSV''
      else if endswith dslower ''.gpx'' then ''GPX''
      else if endswith dslower ''.kml'' then ''KML''
      else ''ESRI Shapefile'')"

definition set_output ::
  "string + ConnectionString \<Rightarrow> string option \<Rightarrow> string option \<Rightarrow> string option \<Rightarrow> state \<Rightarrow> state" where
  "set_output output_ds file_type table_name srs st =
     (case st of (h, self) \<Rightarrow>
        let ds = (case output_ds of Inr c \<Rightarrow> c | Inl path \<Rightarrow> FileConnectionString path);
            ft = (if truthy file_type then the file_type
                  else infer_file_type (lower (cs_encode ds)));
            h = (if file_type = Some ''SQLite''
                 then dict_setitem (priv_dataset_creation_options_internal self) ''SPATIALITE'' ''YES'' h
                 else h);
            self = self\<lparr>output_cfg := Some \<lparr>out_ds = ds, out_file_type = ft,
                                              out_table = table_name, out_srs = srs\<rparr>\<rparr>
        in (h, self))"

text \<open>The property \<open>geom_type\<close> and its setter.\<close>

definition geom_type :: "Ogr2ogr \<Rightarrow> error + string option" where
  "geom_type self =
     (case output_cfg self of
        None \<Rightarrow> Inl AttributeError
      | Some out \<Rightarrow>
          if out_file_type out = ''PostgreSQL'' \<and> \<not> truthy (priv_geom_type self)
          then Inr (Some ''PROMOTE_TO_MULTI'')
          else Inr (priv_geom_type self))"

definition set_geom_type :: "string option \<Rightarrow> state \<Rightarrow> state" where
  "set_geom_type g st = (case st of (h, self) \<Rightarrow> (h, self\<lparr>priv_geom_type := g\<rparr>))"

definition set_output_mode :: "string \<Rightarrow> string \<Rightarrow> state \<Rightarrow> state" where
  "set_output_mode lm dsm st =
     (case st of (h, self) \<Rightarrow> (h, self\<lparr>layer_mode := lm, data_source_mode := dsm\<rparr>))"

text \<open>
  The three option properties. A getter copies the internal dictionary into a new one,
  updates the copy with the user's dictionary and returns the copy; a setter stores the
  reference it is given.
\<close>

definition dataset_creation_options :: "state \<Rightarrow> ref \<times> state" where
  "dataset_creation_options st =
     (case st of (h, self) \<Rightarrow>
        let (result, h) = dict_copy (priv_dataset_creation_options_internal self) h;
            h = dict_update result (priv_dataset_creation_options self) h
        in (result, (h, self)))"

definition set_dataset_creation_options :: "ref \<Rightarrow> state \<Rightarrow> state" where
  "set_dataset_creation_options d st =
     (case st of (h, self) \<Rightarrow> (h, self\<lparr>priv_dataset_creation_options := d\<rparr>))"

definition layer_creation_options :: "state \<Rightarrow> ref \<times> state" where
  "layer_creation_options st =
     (case st of (h, self) \<Rightarrow>
        let (result, h) = dict_copy (priv_layer_creation_options_internal self) h;
            h = dict_update result (priv_layer_creation_options self) h
        in (result, (h, self)))"

definition set_layer_creation_options :: "ref \<Rightarrow> state \<Rightarrow> state" where
  "set_layer_creation_options d st =
     (case st of (h, self) \<Rightarrow> (h, self\<lparr>priv_layer_creation_options := d\<rparr>))"

definition config_options :: "state \<Rightarrow> ref \<times> state" where
  "config_options st =
     (case st of (h, self) \<Rightarrow>
        let (result, h) = dict_copy (priv_config_options_internal self) h;
            h = dict_update result (priv_config_options self) h
        in (result, (h, self)))"

definition set_config_options :: "ref \<Rightarrow> state \<Rightarrow> state" where
  "set_config_options d st =
     (case st of (h, self) \<Rightarrow> (h, self\<lparr>priv_config_options := d\<rparr>))"

subsection \<open>execute\<close>

text \<open>
  Lines 195 to 243 of \<open>execute\<close> build the two local lists \<open>args\<close> and \<open>safe_args\<close>.
  The first statement that reads an attribute of the output (line 200 or 211) and the first
  that reads one of the input (line 214) come before any call, so a builder without
  \<open>set_output\<close> or \<open>set_input\<close> raises \<open>AttributeError\<close> in the state it was given.
  \<open>os.path.exists\<close> is the parameter \<open>path_exists\<close>.
\<close>

definition assemble :: "(string \<Rightarrow> bool) \<Rightarrow> state \<Rightarrow> (error + string list \<times> string list) \<times> state" where
  "assemble path_exists st =
     (case output_cfg (snd st) of None \<Rightarrow> (Inl AttributeError, st) | Some out \<Rightarrow>
     (case input_cfg (snd st) of None \<Rightarrow> (Inl AttributeError, st) | Some inp \<Rightarrow>
       (let self = snd st;
            args = [command self];
            args = (if data_source_mode self = MODE_DS_UPDATE then list_extend args [''-update'']
                    else if data_source_mode self = MODE_DS_CREATE_OR_UPDATE then
                      (if cs_is_file (out_ds out) \<and> path_exists (cs_unicode (out_ds out))
                       then list_extend args [''-update'']
                       else list_extend args [''-update''])
                    else args);
            args = (if layer_mode self = MODE_LAYER_APPEND then list_extend args [''-append'']
                    else if layer_mode self = MODE_LAYER_OVERWRITE then list_extend args [''-overwrite'']
                    else args);
            args = (if truthy (out_srs out) then list_extend args [''-t_srs'', the (out_srs out)] else args);
            args = (if truthy (in_srs inp)
                    then list_extend (list_extend args [''-a_srs'', the (in_srs inp)])
                           [''-s_srs'', the (in_srs inp)]
                    else args);
            args = list_extend args [''-f'', out_file_type out];
            (d, st) = dataset_creation_options st;
            args = fold (\<lambda>(key, value) args. list_extend args [''-dsco'', key @ ''='' @ value])
                     (iteritems d (fst st)) args;
            (d, st) = layer_creation_options st;
            args = fold (\<lambda>(key, value) args. list_extend args [''-lco'', key @ ''='' @ value])
                     (iteritems d (fst st)) args;
            (d, st) = config_options st;
            args = fold (\<lambda>(key, value) args. list_extend args [''--config'', key, value])
                     (iteritems d (fst st)) args;
            args = (if truthy (out_table out) then list_extend args [''-nln'', the (out_table out)]
                    else if truthy (in_table inp) then list_extend args [''-nln'', the (in_table inp)]
                    else if cs_is_file (in_ds inp)
                      then list_extend args [''-nln'', basename (cs_encode (in_ds inp))]
                    else args)
        in (case geom_type (snd st) of Inl e \<Rightarrow> (Inl e, st) | Inr g \<Rightarrow>
           (let args = (if truthy g then list_extend args [''-nlt'', the g] else args);
                safe_args = args
            in (if truthy (in_table inp)
                then (Inr (list_extend args
                             [cs_encode (out_ds out), cs_encode (in_ds inp), the (in_table inp)],
                           list_extend safe_args
                             [cs_unicode (out_ds out), cs_unicode (in_ds inp), the (in_table inp)]),
                      st)
                else (Inr (list_extend args [cs_encode (out_ds out), cs_encode (in_ds inp)],
                           list_extend safe_args [cs_unicode (out_ds out), cs_unicode (in_ds inp)]),
                      st)))))))"

text \<open>
  Lines 244 to 246: the joined \<open>safe_args\<close> go to \<open>logging.debug\<close> and \<open>args\<close> go to
  \<open>Wrapper._do_execute\<close>, which is outside the sources and is the parameter
  \<open>do_execute\<close>; \<open>execute\<close> returns what it returns.
\<close>

record 'r outcome =
  logged :: string
  returned :: 'r

definition execute ::
  "(string \<Rightarrow> bool) \<Rightarrow> (string list \<Rightarrow> 'r) \<Rightarrow> state \<Rightarrow> (error + 'r outcome) \<times> state" where
  "execute path_exists do_execute st =
     (case assemble path_exists st of
        (Inl e, st') \<Rightarrow> (Inl e, st')
      | (Inr (args, safe_args), st') \<Rightarrow>
          (Inr \<lparr>logged = join '' '' safe_args, returned = do_execute args\<rparr>, st'))"

text \<open>
  The list that \<open>execute\<close> hands to \<open>_do_execute\<close>: what \<open>execute\<close> returns when
  \<open>_do_execute\<close> gives back its argument.
\<close>

definition executed_args :: "(string \<Rightarrow> bool) \<Rightarrow> state \<Rightarrow> error + string list" where
  "executed_args path_exists st =
     (case fst (execute path_exists (\<lambda>args. args) st) of
        Inl e \<Rightarrow> Inl e
      | Inr res \<Rightarrow> Inr (returned res))"

subsection \<open>The sections of the argument list\<close>

text \<open>
  A builder holds six references; in Python a reference always points to an allocated
  object, which for the store of the model is \<open>valid_refs\<close>. The merged view of an option
  pair and the sections of the argument list are written here as functions of the
  configured state, to be compared with what \<open>execute\<close> accumulates.
\<close>

definition valid_refs :: "state \<Rightarrow> bool" where
  "valid_refs st =
     (priv_dataset_creation_options (snd st) < length (fst st) \<and>
      priv_layer_creation_options (snd st) < length (fst st) \<and>
      priv_dataset_creation_options_internal (snd st) < length (fst st) \<and>
      priv_layer_creation_options_internal (snd st) < length (fst st) \<and>
      priv_config_options (snd st) < length (fst st) \<and>
      priv_config_options_internal (snd st) < length (fst st))"

definition ds_mode_args :: "Ogr2ogr \<Rightarrow> string list" where
  "ds_mode_args self =
     (if data_source_mode self = MODE_DS_UPDATE \<or> data_source_mode self = MODE_DS_CREATE_OR_UPDATE
      then [''-update''] else [])"

definition layer_mode_args :: "Ogr2ogr \<Rightarrow> string list" where
  "layer_mode_args self =
     (if layer_mode self = MODE_LAYER_APPEND then [''-append'']
      else if layer_mode self = MODE_LAYER_OVERWRITE then [''-overwrite'']
      else [])"

definition t_srs_args :: "out_settings \<Rightarrow> string list" where
  "t_srs_args out = (if truthy (out_srs out) then [''-t_srs'', the (out_srs out)] else [])"

definition s_srs_args :: "in_settings \<Rightarrow> string list" where
  "s_srs_args inp =
     (if truthy (in_srs inp) then [''-a_srs'', the (in_srs inp), ''-s_srs'', the (in_srs inp)] else [])"

definition format_args :: "out_settings \<Rightarrow> string list" where
  "format_args out = [''-f'', out_file_type out]"

definition merged_dataset_creation_options :: "state \<Rightarrow> dict" where
  "merged_dataset_creation_options st =
     merge (fst st ! priv_dataset_creation_options_internal (snd st))
           (fst st ! priv_dataset_creation_options (snd st))"

definition merged_layer_creation_options :: "state \<Rightarrow> dict" where
  "merged_layer_creation_options st =
     merge (fst st ! priv_layer_creation_options_internal (snd st))
           (fst st ! priv_layer_creation_options (snd st))"

definition merged_config_options :: "state \<Rightarrow> dict" where
  "merged_config_options st =
     merge (fst st ! priv_config_options_internal (snd st))
           (fst st ! priv_config_options (snd st))"

definition dsco_args :: "state \<Rightarrow> string list" where
  "dsco_args st =
     concat (map (\<lambda>(key, value). [''-dsco'', key @ ''='' @ value])
               (DAList.impl_of (merged_dataset_creation_options st)))"

definition lco_args :: "state \<Rightarrow> string list" where
  "lco_args st =
     concat (map (\<lambda>(key, value). [''-lco'', key @ ''='' @ value])
               (DAList.impl_of (merged_layer_creation_options st)))"

definition config_args :: "state \<Rightarrow> string list" where
  "config_args st =
     concat (map (\<lambda>(key, value). [''--config'', key, value])
               (DAList.impl_of (merged_config_options st)))"

definition nln_args :: "out_settings \<Rightarrow> in_settings \<Rightarrow> string list" where
  "nln_args out inp =
     (if truthy (out_table out) then [''-nln'', the (out_table out)]
      else if truthy (in_table inp) then [''-nln'', the (in_table inp)]
      else if cs_is_file (in_ds inp) then [''-nln'', basename (cs_encode (in_ds inp))]
      else [])"

definition resolved_geom_type :: "Ogr2ogr \<Rightarrow> out_settings \<Rightarrow> string option" where
  "resolved_geom_type self out =
     (if truthy (priv_geom_type self) then priv_geom_type self
      else if out_file_type out = ''PostgreSQL'' then Some ''PROMOTE_TO_MULTI''
      else priv_geom_type self)"

definition nlt_args :: "Ogr2ogr \<Rightarrow> out_settings \<Rightarrow> string list" where
  "nlt_args self out =
     (if truthy (resolved_geom_type self out) then [''-nlt'', the (resolved_geom_type self out)] else [])"

definition positional_args ::
  "(ConnectionString \<Rightarrow> string) \<Rightarrow> out_settings \<Rightarrow> in_settings \<Rightarrow> string list" where
  "positional_args render out inp =
     [render (out_ds out), render (in_ds inp)] @
     (if truthy (in_table inp) then [the (in_table inp)] else [])"

definition flag_args :: "state \<Rightarrow> out_settings \<Rightarrow> in_settings \<Rightarrow> string list" where
  "flag_args st out inp =
     [command (snd st)] @ ds_mode_args (snd st) @ layer_mode_args (snd st) @ t_srs_args out @
     s_srs_args inp @ format_args out @ dsco_args st @ lco_args st @ config_args st @
     nln_args out inp @ nlt_args (snd st) out"

definition options_args :: "state \<Rightarrow> out_settings \<Rightarrow> string list" where
  "options_args st out = format_args out @ dsco_args st @ lco_args st @ config_args st"

subsection \<open>The format table of the specification\<close>

text \<open>
  The specification gives the inference of the output format as a table of suffixes and one
  prefix, matched without regard to case and read from the top; what matches no entry is a
  shapefile. This is that table, to be compared with the chain of \<open>set_output\<close>.
\<close>

datatype matcher = Suffix string | Prefix string

fun matches :: "matcher \<Rightarrow> string \<Rightarrow> bool" where
  "matches (Suffix x) s = endswith (lower s) x"
| "matches (Prefix p) s = startswith (lower s) p"

definition file_type_table :: "(matcher \<times> string) list" where
  "file_type_table =
     [(Suffix ''.shp'', ''ESRI Shapefile''),
      (Prefix ''pg:'', ''PostgreSQL''),
      (Suffix ''.sqlite'', ''SQLite''),
      (Suffix ''.json'', ''GeoJSON''),
      (Suffix ''.geojson'', ''GeoJSON''),
      (Suffix ''.gml'', ''GML''),
      (Suffix ''.csv'', ''CSV''),
      (Suffix ''.gpx'', ''GPX''),
      (Suffix ''.kml'', ''KML'')]"

fun first_match :: "(matcher \<times> string) list \<Rightarrow> string \<Rightarrow> string" where
  "first_match [] s = ''ESRI Shapefile''"
| "first_match ((m, t) # rest) s = (if matches m s then t else first_match rest s)"

text \<open>
  The text the format is inferred from: the path for a raw path, \<open>encode()\<close> for a
  connection object.
\<close>

definition destination_text :: "string + ConnectionString \<Rightarrow> string" where
  "destination_text ds = (case ds of Inl path \<Rightarrow> path | Inr c \<Rightarrow> cs_encode c)"

definition resolved_file_type :: "state \<Rightarrow> string option" where
  "resolved_file_type st = map_option out_file_type (output_cfg (snd st))"

text \<open>
  What a caller reads under key \<open>k\<close> in the dictionary that an option getter returns.
\<close>

definition getter_lookup :: "(state \<Rightarrow> ref \<times> state) \<Rightarrow> state \<Rightarrow> string \<Rightarrow> string option" where
  "getter_lookup getter st k = DAList.lookup (fst (snd (getter st)) ! fst (getter st)) k"

subsection \<open>Concrete builders\<close>

text \<open>
  Builders configured through the methods of the class, the states they reach written out,
  and two stand-ins for \<open>os.path.exists\<close>.
\<close>

definition path_missing :: "string \<Rightarrow> bool" where
  "path_missing p = False"

definition path_present :: "string \<Rightarrow> bool" where
  "path_present p = True"

definition example_builder :: state where
  "example_builder =
     set_output (Inl ''out.db'') (Some ''SQLite'') None (Some ''EPSG:4326'')
       (set_input (Inl ''/data/roads.shp'') (Some ''parcels'') (Some ''EPSG:25830'') (Some ''latin1'')
         (set_output_mode MODE_LAYER_APPEND MODE_DS_CREATE_OR_UPDATE (init OGR2OGR_PATH [])))"

definition example_input :: in_settings where
  "example_input = \<lparr>in_ds = FileConnectionString ''/data/roads.shp'',
                     in_table = Some ''parcels'', in_srs = Some ''EPSG:25830'',
                     in_encoding = Some ''latin1''\<rparr>"

definition example_output :: out_settings where
  "example_output = \<lparr>out_ds = FileConnectionString ''out.db'', out_file_type = ''SQLite'',
                      out_table = None, out_srs = Some ''EPSG:4326''\<rparr>"

definition example_heap :: heap where
  "example_heap =
     [DAList.empty, DAList.empty, DAList.update ''SPATIALITE'' ''YES'' DAList.empty,
      DAList.empty, DAList.empty, DAList.update ''SHAPE_ENCODING'' ''latin1'' DAList.empty]"

definition example_self :: Ogr2ogr where
  "example_self =
      \<lparr>command = OGR2OGR_PATH, layer_mode = MODE_LAYER_APPEND,
        data_source_mode = MODE_DS_CREATE_OR_UPDATE,
        priv_dataset_creation_options = 0, priv_layer_creation_options = 1,
        priv_dataset_creation_options_internal = 2, priv_layer_creation_options_internal = 3,
        priv_config_options = 4, priv_config_options_internal = 5,
        priv_geom_type = None,
        input_cfg = Some example_input,
        output_cfg = Some example_output\<rparr>"

definition sqlite_suffix_builder :: state where
  "sqlite_suffix_builder =
     set_output (Inl ''out.sqlite'') None None None
       (set_input (Inl ''in.shp'') None None None (init OGR2OGR_PATH []))"

definition roads_builder :: state where
  "roads_builder =
     set_output (Inl ''out.shp'') None None None
       (set_input (Inl ''/data/roads.shp'') None None None (init OGR2OGR_PATH []))"

definition parcels_builder :: state where
  "parcels_builder =
     set_output (Inl ''out.shp'') None None None
       (set_input (Inl ''/data/cadastre.gml'') (Some ''parcels'') None None (init OGR2OGR_PATH []))"

definition pg_connection :: ConnectionString where
  "pg_connection = \<lparr>cs_is_file = False,
                     cs_encode = ''PG:dbname=gis password=secret'',
                     cs_unicode = ''PG:dbname=gis password=xxxxxx''\<rparr>"

definition pg_builder :: state where
  "pg_builder =
     set_output (Inr pg_connection) None (Some ''roads'') None
       (set_input (Inl ''/data/roads.shp'') None None None (init OGR2OGR_PATH []))"

definition plain_heap :: heap where
  "plain_heap = [DAList.empty, DAList.empty, DAList.empty, DAList.empty, DAList.empty, DAList.empty]"

definition plain_self :: "in_settings \<Rightarrow> out_settings \<Rightarrow> Ogr2ogr" where
  "plain_self inp out =
      \<lparr>command = OGR2OGR_PATH, layer_mode = MODE_LAYER_CREATE,
        data_source_mode = MODE_DS_CREATE,
        priv_dataset_creation_options = 0, priv_layer_creation_options = 1,
        priv_dataset_creation_options_internal = 2, priv_layer_creation_options_internal = 3,
        priv_config_options = 4, priv_config_options_internal = 5,
        priv_geom_type = None,
        input_cfg = Some inp,
        output_cfg = Some out\<rparr>"

definition file_input :: "string \<Rightarrow> string option \<Rightarrow> in_settings" where
  "file_input path table =
     \<lparr>in_ds = FileConnectionString path, in_table = table, in_srs = None, in_encoding = None\<rparr>"

definition file_output :: "string \<Rightarrow> string \<Rightarrow> out_settings" where
  "file_output path ft =
     \<lparr>out_ds = FileConnectionString path, out_file_type = ft, out_table = None, out_srs = None\<rparr>"

definition pg_output :: "string option \<Rightarrow> out_settings" where
  "pg_output table = \<lparr>out_ds = pg_connection, out_file_type = ''PostgreSQL'',
                       out_table = table, out_srs = None\<rparr>"

definition override_heap :: heap where
  "override_heap =
     [DAList.empty, DAList.empty, DAList.update ''SPATIALITE'' ''YES'' DAList.empty,
      DAList.empty, DAList.empty, DAList.update ''SHAPE_ENCODING'' ''latin1'' DAList.empty,
      DAList.update ''METADATA'' ''NO'' (DAList.update ''SPATIALITE'' ''NO'' DAList.empty)]"

section \<open>Properties\<close>

subsection \<open>Dictionaries and the option getters\<close>

lemma lookup_fold_update:
  "distinct (map fst xs) \<Longrightarrow>
   DAList.lookup (fold (\<lambda>(k, v) acc. DAList.update k v acc) xs d) k =
     (case map_of xs k of Some v \<Rightarrow> Some v | None \<Rightarrow> DAList.lookup d k)"
proof (induction xs arbitrary: d)
  case Nil
  show ?case by simp
next
  case (Cons p ps)
  obtain a b where p: "p = (a, b)" by (cases p)
  from Cons.prems p have fresh: "map_of ps a = None" and dist: "distinct (map fst ps)"
    by (auto simp: map_of_eq_None_iff)
  show ?case
    using Cons.IH [OF dist, of "DAList.update a b d"] fresh
    by (auto simp: p DAList.lookup_update split: option.splits)
qed

lemma lookup_merge:
  "DAList.lookup (merge d other) k =
     (case DAList.lookup other k of Some v \<Rightarrow> Some v | None \<Rightarrow> DAList.lookup d k)"
  unfolding merge_def
  by (subst lookup_fold_update) (simp_all add: DAList.lookup.rep_eq)

lemma fold_extend:
  "fold (\<lambda>(key, value) args. list_extend args (f key value)) xs args =
     args @ concat (map (\<lambda>(key, value). f key value) xs)"
  by (induction xs arbitrary: args) (auto simp: list_extend_def)

lemma getter_heap:
  "d < length h \<Longrightarrow> u < length h \<Longrightarrow>
   dict_update (length h) u (h @ [h ! d]) = h @ [merge (h ! d) (h ! u)]"
  by (simp add: dict_update_def nth_append)

lemma dataset_creation_options_eq:
  assumes "valid_refs (h, self)"
  shows "dataset_creation_options (h, self) =
           (length h, (h @ [merged_dataset_creation_options (h, self)], self))"
  using assms
  by (simp add: dataset_creation_options_def dict_copy_def getter_heap valid_refs_def
      merged_dataset_creation_options_def)

lemma layer_creation_options_eq:
  assumes "valid_refs (h, self)"
  shows "layer_creation_options (h, self) =
           (length h, (h @ [merged_layer_creation_options (h, self)], self))"
  using assms
  by (simp add: layer_creation_options_def dict_copy_def getter_heap valid_refs_def
      merged_layer_creation_options_def)

lemma config_options_eq:
  assumes "valid_refs (h, self)"
  shows "config_options (h, self) =
           (length h, (h @ [merged_config_options (h, self)], self))"
  using assms
  by (simp add: config_options_def dict_copy_def getter_heap valid_refs_def
      merged_config_options_def)

lemma valid_refs_grow: "valid_refs (h, self) \<Longrightarrow> valid_refs (h @ xs, self)"
  by (simp add: valid_refs_def)

lemma merged_grow:
  assumes "valid_refs (h, self)"
  shows "merged_dataset_creation_options (h @ xs, self) = merged_dataset_creation_options (h, self)"
    and "merged_layer_creation_options (h @ xs, self) = merged_layer_creation_options (h, self)"
    and "merged_config_options (h @ xs, self) = merged_config_options (h, self)"
  using assms
  by (simp_all add: valid_refs_def nth_append merged_dataset_creation_options_def
      merged_layer_creation_options_def merged_config_options_def)

lemma geom_type_eq:
  "output_cfg self = Some out \<Longrightarrow> geom_type self = Inr (resolved_geom_type self out)"
  by (simp add: geom_type_def resolved_geom_type_def)

lemma getter_lookup_dsco:
  assumes "valid_refs (h, self)"
  shows "getter_lookup dataset_creation_options (h, self) k =
     (case DAList.lookup (h ! priv_dataset_creation_options self) k of
        Some v \<Rightarrow> Some v
      | None \<Rightarrow> DAList.lookup (h ! priv_dataset_creation_options_internal self) k)"
  by (simp add: getter_lookup_def dataset_creation_options_eq [OF assms]
      merged_dataset_creation_options_def lookup_merge)

lemma getter_lookup_lco:
  assumes "valid_refs (h, self)"
  shows "getter_lookup layer_creation_options (h, self) k =
     (case DAList.lookup (h ! priv_layer_creation_options self) k of
        Some v \<Rightarrow> Some v
      | None \<Rightarrow> DAList.lookup (h ! priv_layer_creation_options_internal self) k)"
  by (simp add: getter_lookup_def layer_creation_options_eq [OF assms]
      merged_layer_creation_options_def lookup_merge)

lemma getter_lookup_config:
  assumes "valid_refs (h, self)"
  shows "getter_lookup config_options (h, self) k =
     (case DAList.lookup (h ! priv_config_options self) k of
        Some v \<Rightarrow> Some v
      | None \<Rightarrow> DAList.lookup (h ! priv_config_options_internal self) k)"
  by (simp add: getter_lookup_def config_options_eq [OF assms]
      merged_config_options_def lookup_merge)

lemma setters_frame:
  "fst (set_dataset_creation_options d (h, self)) = h"
  "priv_dataset_creation_options (snd (set_dataset_creation_options d (h, self))) = d"
  "priv_dataset_creation_options_internal (snd (set_dataset_creation_options d (h, self))) =
     priv_dataset_creation_options_internal self"
  "fst (set_layer_creation_options d (h, self)) = h"
  "priv_layer_creation_options (snd (set_layer_creation_options d (h, self))) = d"
  "priv_layer_creation_options_internal (snd (set_layer_creation_options d (h, self))) =
     priv_layer_creation_options_internal self"
  "fst (set_config_options d (h, self)) = h"
  "priv_config_options (snd (set_config_options d (h, self))) = d"
  "priv_config_options_internal (snd (set_config_options d (h, self))) =
     priv_config_options_internal self"
  by (simp_all add: set_dataset_creation_options_def set_layer_creation_options_def
      set_config_options_def)

lemma setters_valid:
  assumes "valid_refs (h, self)" "d < length h"
  shows "valid_refs (set_dataset_creation_options d (h, self))"
    and "valid_refs (set_layer_creation_options d (h, self))"
    and "valid_refs (set_config_options d (h, self))"
  using assms
  by (simp_all add: valid_refs_def set_dataset_creation_options_def
      set_layer_creation_options_def set_config_options_def)

subsection \<open>What execute accumulates\<close>

text \<open>
  Each statement of \<open>execute\<close> appends one section to \<open>args\<close>, and each getter
  leaves the dictionaries it reads as they were and allocates one more.
\<close>

lemma ds_mode_step:
  "(if data_source_mode self = MODE_DS_UPDATE then list_extend args [''-update'']
    else if data_source_mode self = MODE_DS_CREATE_OR_UPDATE then
      (if p then list_extend args [''-update''] else list_extend args [''-update''])
    else args) = args @ ds_mode_args self"
  by (simp add: ds_mode_args_def list_extend_def)

lemma layer_mode_step:
  "(if layer_mode self = MODE_LAYER_APPEND then list_extend args [''-append'']
    else if layer_mode self = MODE_LAYER_OVERWRITE then list_extend args [''-overwrite'']
    else args) = args @ layer_mode_args self"
  by (simp add: layer_mode_args_def list_extend_def)

lemma t_srs_step:
  "(if truthy (out_srs out) then list_extend args [''-t_srs'', the (out_srs out)] else args) =
     args @ t_srs_args out"
  by (simp add: t_srs_args_def list_extend_def)

lemma s_srs_step:
  "(if truthy (in_srs inp)
    then list_extend (list_extend args [''-a_srs'', the (in_srs inp)]) [''-s_srs'', the (in_srs inp)]
    else args) = args @ s_srs_args inp"
  by (simp add: s_srs_args_def list_extend_def)

lemma nln_step:
  "(if truthy (out_table out) then list_extend args [''-nln'', the (out_table out)]
    else if truthy (in_table inp) then list_extend args [''-nln'', the (in_table inp)]
    else if cs_is_file (in_ds inp)
      then list_extend args [''-nln'', basename (cs_encode (in_ds inp))]
    else args) = args @ nln_args out inp"
  by (simp add: nln_args_def list_extend_def)

lemma nlt_step:
  "(if truthy (resolved_geom_type self out)
    then list_extend args [''-nlt'', the (resolved_geom_type self out)] else args) =
     args @ nlt_args self out"
  by (simp add: nlt_args_def list_extend_def)

lemma positional_step:
  "(if truthy (in_table inp)
    then (Inr (list_extend args [e1, e2, the (in_table inp)],
               list_extend safe_args [u1, u2, the (in_table inp)]), st)
    else (Inr (list_extend args [e1, e2], list_extend safe_args [u1, u2]), st)) =
   (Inr (args @ [e1, e2] @ (if truthy (in_table inp) then [the (in_table inp)] else []),
         safe_args @ [u1, u2] @ (if truthy (in_table inp) then [the (in_table inp)] else [])), st)"
  by (simp add: list_extend_def)

lemma assemble_eq:
  assumes v: "valid_refs (h, self)"
    and i: "input_cfg self = Some inp"
    and out: "output_cfg self = Some out"
  shows "assemble path_exists (h, self) =
           (Inr (flag_args (h, self) out inp @ positional_args cs_encode out inp,
                 flag_args (h, self) out inp @ positional_args cs_unicode out inp),
            (h @ [merged_dataset_creation_options (h, self),
                  merged_layer_creation_options (h, self),
                  merged_config_options (h, self)], self))"
proof -
  let ?h1 = "h @ [merged_dataset_creation_options (h, self)]"
  let ?h2 = "?h1 @ [merged_layer_creation_options (h, self)]"
  have v1: "valid_refs (?h1, self)" and v2: "valid_refs (?h2, self)"
    using v by (simp_all add: valid_refs_def)
  have g1: "dataset_creation_options (h, self) = (length h, (?h1, self))"
    by (rule dataset_creation_options_eq [OF v])
  have g2: "layer_creation_options (?h1, self) = (length ?h1, (?h2, self))"
    using layer_creation_options_eq [OF v1] merged_grow(2) [OF v] by simp
  have g3: "config_options (?h2, self) =
              (length ?h2, (?h2 @ [merged_config_options (h, self)], self))"
    using config_options_eq [OF v2]
      merged_grow(3) [OF v, of "[merged_dataset_creation_options (h, self), merged_layer_creation_options (h, self)]"]
    by simp
  have it1: "iteritems (length h) ?h1 = DAList.impl_of (merged_dataset_creation_options (h, self))"
    and it2: "iteritems (length ?h1) ?h2 = DAList.impl_of (merged_layer_creation_options (h, self))"
    and it3: "iteritems (length ?h2) (?h2 @ [merged_config_options (h, self)]) =
                DAList.impl_of (merged_config_options (h, self))"
    by (simp_all add: iteritems_def nth_append)
  show ?thesis
    unfolding assemble_def
    apply (simp only: snd_conv fst_conv i out option.case Let_def ds_mode_step layer_mode_step
        t_srs_step s_srs_step g1 g2 g3 prod.case it1 it2 it3 fold_extend nln_step
        geom_type_eq [OF out] sum.case nlt_step positional_step)
    apply (simp add: flag_args_def positional_args_def format_args_def dsco_args_def lco_args_def
        config_args_def list_extend_def split del: if_split)
    done
qed

lemma execute_eq:
  assumes "valid_refs (h, self)" "input_cfg self = Some inp" "output_cfg self = Some out"
  shows "execute path_exists do_execute (h, self) =
           (Inr \<lparr>logged = join '' '' (flag_args (h, self) out inp @ positional_args cs_unicode out inp),
                 returned = do_execute (flag_args (h, self) out inp @ positional_args cs_encode out inp)\<rparr>,
            (h @ [merged_dataset_creation_options (h, self),
                  merged_layer_creation_options (h, self),
                  merged_config_options (h, self)], self))"
  by (simp add: execute_def assemble_eq [OF assms])

lemma executed_args_eq:
  assumes "valid_refs (h, self)" "input_cfg self = Some inp" "output_cfg self = Some out"
  shows "executed_args path_exists (h, self) =
           Inr (flag_args (h, self) out inp @ positional_args cs_encode out inp)"
  by (simp add: executed_args_def execute_eq [OF assms])

lemma assemble_unconfigured:
  "input_cfg self = None \<or> output_cfg self = None \<Longrightarrow>
   assemble path_exists (h, self) = (Inl AttributeError, (h, self))"
  by (auto simp: assemble_def split: option.splits)

lemma execute_unconfigured:
  "input_cfg self = None \<or> output_cfg self = None \<Longrightarrow>
   execute path_exists do_execute (h, self) = (Inl AttributeError, (h, self))"
  by (simp add: execute_def assemble_unconfigured)

subsection \<open>Builders made by the class\<close>

text \<open>
  The constructor yields valid references and every method keeps them valid; after
  \<open>set_input\<close> and \<open>set_output\<close> both groups of attributes exist. So the hypotheses of the
  properties below hold of every builder that a caller can make.
\<close>

lemma init_valid: "valid_refs (init cmd h)"
  by (simp add: init_def new_dict_def valid_refs_def)

lemma set_input_valid: "valid_refs st \<Longrightarrow> valid_refs (set_input input_ds table_name srs encoding st)"
  by (cases st) (simp add: set_input_def valid_refs_def dict_setitem_def Let_def)

lemma set_output_valid: "valid_refs st \<Longrightarrow> valid_refs (set_output output_ds file_type table_name srs st)"
  by (cases st) (simp add: set_output_def valid_refs_def dict_setitem_def Let_def)

lemma set_output_mode_valid: "valid_refs st \<Longrightarrow> valid_refs (set_output_mode lm dsm st)"
  by (cases st) (simp add: set_output_mode_def valid_refs_def)

lemma set_geom_type_valid: "valid_refs st \<Longrightarrow> valid_refs (set_geom_type g st)"
  by (cases st) (simp add: set_geom_type_def valid_refs_def)

lemma execute_valid: "valid_refs st \<Longrightarrow> valid_refs (snd (execute path_exists do_execute st))"
proof (cases st)
  case (Pair h self)
  assume v: "valid_refs st"
  show ?thesis
  proof (cases "input_cfg self = None \<or> output_cfg self = None")
    case True
    with v Pair show ?thesis by (simp add: execute_unconfigured)
  next
    case False
    then obtain inp out where "input_cfg self = Some inp" "output_cfg self = Some out" by auto
    with v Pair show ?thesis by (simp add: execute_eq valid_refs_grow)
  qed
qed

lemma set_input_configures:
  "input_cfg (snd (set_input input_ds table_name srs encoding st)) =
     Some \<lparr>in_ds = (case input_ds of Inr c \<Rightarrow> c | Inl path \<Rightarrow> FileConnectionString path),
           in_table = table_name, in_srs = srs, in_encoding = encoding\<rparr>"
  "output_cfg (snd (set_input input_ds table_name srs encoding st)) = output_cfg (snd st)"
  by (cases st; simp add: set_input_def Let_def)+

lemma set_output_configures:
  "\<exists>out. output_cfg (snd (set_output output_ds file_type table_name srs st)) = Some out"
  "input_cfg (snd (set_output output_ds file_type table_name srs st)) = input_cfg (snd st)"
  by (cases st; simp add: set_output_def Let_def)+

subsection \<open>The concrete builders evaluated\<close>

lemmas lower_eval = lower_def lower_char_def ascii_uppercase_def ascii_lowercase_def
  endswith_def startswith_def infer_file_type_def

lemma example_builder_eq: "example_builder = (example_heap, example_self)"
  by (simp add: example_builder_def init_def new_dict_def set_input_def set_output_def
      set_output_mode_def dict_setitem_def Let_def example_heap_def example_self_def
      example_input_def example_output_def)

lemma example_valid: "valid_refs (example_heap, example_self)"
  by (simp add: valid_refs_def example_heap_def example_self_def)

lemma example_cfg:
  "input_cfg example_self = Some example_input" "output_cfg example_self = Some example_output"
  by (simp_all add: example_self_def)

lemma example_sections:
  "command example_self = ''/usr/bin/ogr2ogr''"
  "ds_mode_args example_self = [''-update'']"
  "layer_mode_args example_self = [''-append'']"
  "t_srs_args example_output = [''-t_srs'', ''EPSG:4326'']"
  "s_srs_args example_input = [''-a_srs'', ''EPSG:25830'', ''-s_srs'', ''EPSG:25830'']"
  "format_args example_output = [''-f'', ''SQLite'']"
  "dsco_args (example_heap, example_self) = [''-dsco'', ''SPATIALITE=YES'']"
  "lco_args (example_heap, example_self) = []"
  "config_args (example_heap, example_self) = [''--config'', ''SHAPE_ENCODING'', ''latin1'']"
  "nln_args example_output example_input = [''-nln'', ''parcels'']"
  "nlt_args example_self example_output = []"
  "positional_args cs_encode example_output example_input = [''out.db'', ''/data/roads.shp'', ''parcels'']"
  "positional_args cs_unicode example_output example_input = [''out.db'', ''/data/roads.shp'', ''parcels'']"
  by (simp_all add: example_self_def example_output_def example_input_def example_heap_def
      ds_mode_args_def layer_mode_args_def t_srs_args_def s_srs_args_def
      format_args_def dsco_args_def lco_args_def config_args_def nln_args_def nlt_args_def
      resolved_geom_type_def positional_args_def merged_dataset_creation_options_def
      merged_layer_creation_options_def merged_config_options_def merge_def
      DAList.update.rep_eq DAList.empty.rep_eq FileConnectionString_def
      MODE_DS_CREATE_def MODE_DS_UPDATE_def MODE_DS_CREATE_OR_UPDATE_def
      MODE_LAYER_CREATE_def MODE_LAYER_APPEND_def MODE_LAYER_OVERWRITE_def OGR2OGR_PATH_def)

lemma example_fields:
  "out_file_type example_output = ''SQLite''"
  "cs_encode (out_ds example_output) = ''out.db''"
  "cs_encode (in_ds example_input) = ''/data/roads.shp''"
  "cs_unicode (out_ds example_output) = ''out.db''"
  "cs_unicode (in_ds example_input) = ''/data/roads.shp''"
  "in_table example_input = Some ''parcels''"
  "out_table example_output = None"
  "in_srs example_input = Some ''EPSG:25830''"
  "out_srs example_output = Some ''EPSG:4326''"
  by (simp_all add: example_output_def example_input_def FileConnectionString_def)

lemma plain_builders:
  "sqlite_suffix_builder =
     (plain_heap, plain_self (file_input ''in.shp'' None) (file_output ''out.sqlite'' ''SQLite''))"
  "roads_builder =
     (plain_heap, plain_self (file_input ''/data/roads.shp'' None) (file_output ''out.shp'' ''ESRI Shapefile''))"
  "parcels_builder =
     (plain_heap, plain_self (file_input ''/data/cadastre.gml'' (Some ''parcels''))
                             (file_output ''out.shp'' ''ESRI Shapefile''))"
  by (simp_all add: sqlite_suffix_builder_def roads_builder_def parcels_builder_def
      init_def new_dict_def set_input_def set_output_def Let_def plain_heap_def plain_self_def
      file_input_def file_output_def FileConnectionString_def lower_eval)

lemma plain_valid: "valid_refs (plain_heap, plain_self inp out)"
  by (simp add: valid_refs_def plain_heap_def plain_self_def)

lemma plain_cfg:
  "input_cfg (plain_self inp out) = Some inp" "output_cfg (plain_self inp out) = Some out"
  by (simp_all add: plain_self_def)

lemma plain_sections:
  "command (plain_self inp out) = ''/usr/bin/ogr2ogr''"
  "ds_mode_args (plain_self inp out) = []"
  "layer_mode_args (plain_self inp out) = []"
  "dsco_args (plain_heap, plain_self inp out) = []"
  "lco_args (plain_heap, plain_self inp out) = []"
  "config_args (plain_heap, plain_self inp out) = []"
  "priv_geom_type (plain_self inp out) = None"
  by (simp_all add: plain_self_def plain_heap_def ds_mode_args_def layer_mode_args_def
      dsco_args_def lco_args_def config_args_def merged_dataset_creation_options_def
      merged_layer_creation_options_def merged_config_options_def merge_def
      DAList.empty.rep_eq MODE_DS_CREATE_def MODE_DS_UPDATE_def MODE_DS_CREATE_OR_UPDATE_def
      MODE_LAYER_CREATE_def MODE_LAYER_APPEND_def MODE_LAYER_OVERWRITE_def OGR2OGR_PATH_def)

lemma file_fields:
  "out_file_type (file_output p ft) = ft"
  "out_table (file_output p ft) = None"
  "out_srs (file_output p ft) = None"
  "cs_encode (out_ds (file_output p ft)) = p"
  "cs_unicode (out_ds (file_output p ft)) = p"
  "in_table (file_input q t) = t"
  "in_srs (file_input q t) = None"
  "cs_encode (in_ds (file_input q t)) = q"
  "cs_unicode (in_ds (file_input q t)) = q"
  "cs_is_file (in_ds (file_input q t))"
  by (simp_all add: file_output_def file_input_def FileConnectionString_def)

lemma pg_builder_eq:
  "pg_builder = (plain_heap, plain_self (file_input ''/data/roads.shp'' None) (pg_output (Some ''roads'')))"
  by (simp add: pg_builder_def init_def new_dict_def set_input_def set_output_def Let_def
      plain_heap_def plain_self_def file_input_def pg_output_def pg_connection_def
      FileConnectionString_def lower_eval)

lemma pg_fields:
  "out_file_type (pg_output t) = ''PostgreSQL''"
  "out_table (pg_output t) = t"
  "out_srs (pg_output t) = None"
  "cs_encode (out_ds (pg_output t)) = ''PG:dbname=gis password=secret''"
  "cs_unicode (out_ds (pg_output t)) = ''PG:dbname=gis password=xxxxxx''"
  by (simp_all add: pg_output_def pg_connection_def)

subsection \<open>The order of the argument list\<close>

text \<open>
  Claim C1. For a builder on which \<open>set_input\<close> and \<open>set_output\<close> have been called,
  \<open>execute\<close> hands to the process runner exactly this list: the executable; \<open>-update\<close>
  when the data source mode asks for it; \<open>-append\<close> or \<open>-overwrite\<close> when the layer mode
  asks for it; \<open>-t_srs\<close> and the output SRS if one is set; \<open>-a_srs\<close> and \<open>-s_srs\<close> with
  the input SRS if one is set; \<open>-f\<close> and the resolved file type, always; the \<open>-dsco\<close>, the
  \<open>-lco\<close> and the \<open>--config\<close> options; \<open>-nln\<close> and the layer name when one resolves;
  \<open>-nlt\<close> and the geometry type when it is not empty; then the output destination, the
  input destination and, only when an input table name was given, that name.
\<close>

theorem execute_argument_order:
  assumes "valid_refs (h, self)" "input_cfg self = Some inp" "output_cfg self = Some out"
  shows "executed_args path_exists (h, self) =
           Inr ([command self] @ ds_mode_args self @ layer_mode_args self @
                t_srs_args out @ s_srs_args inp @ [''-f'', out_file_type out] @
                dsco_args (h, self) @ lco_args (h, self) @ config_args (h, self) @
                nln_args out inp @ nlt_args self out @
                [cs_encode (out_ds out), cs_encode (in_ds inp)] @
                (if truthy (in_table inp) then [the (in_table inp)] else []))"
  by (simp add: executed_args_eq [OF assms] flag_args_def positional_args_def format_args_def)

theorem execute_argument_order_witness:
  "executed_args path_missing example_builder =
     Inr [''/usr/bin/ogr2ogr'', ''-update'', ''-append'', ''-t_srs'', ''EPSG:4326'',
          ''-a_srs'', ''EPSG:25830'', ''-s_srs'', ''EPSG:25830'', ''-f'', ''SQLite'',
          ''-dsco'', ''SPATIALITE=YES'', ''--config'', ''SHAPE_ENCODING'', ''latin1'',
          ''-nln'', ''parcels'', ''out.db'', ''/data/roads.shp'', ''parcels'']"
  using execute_argument_order [OF example_valid example_cfg, of path_missing]
  by (simp add: example_builder_eq example_sections example_fields)

subsection \<open>The output format\<close>

lemma infer_file_type_table: "infer_file_type (lower d) = first_match file_type_table d"
  by (simp add: infer_file_type_def file_type_table_def)

lemma first_match_default:
  "list_all (\<lambda>(m, t). \<not> matches m d) tab \<Longrightarrow> first_match tab d = ''ESRI Shapefile''"
  by (induction tab) auto

lemma set_output_resolved:
  "resolved_file_type (set_output output_ds file_type table_name srs st) =
     Some (if truthy file_type then the file_type
           else infer_file_type (lower (destination_text output_ds)))"
  by (cases st; cases output_ds)
     (simp_all add: resolved_file_type_def set_output_def Let_def destination_text_def
       FileConnectionString_def)

text \<open>
  Claim C2. \<open>set_output\<close> resolves the file type with this precedence: a \<open>file_type\<close>
  that is given (not \<open>None\<close>, not empty) wins; otherwise the first entry of the table that
  matches the destination, without regard to case, decides (\<open>.shp\<close>, the prefix \<open>pg:\<close>,
  \<open>.sqlite\<close>, \<open>.json\<close> or \<open>.geojson\<close>, \<open>.gml\<close>, \<open>.csv\<close>, \<open>.gpx\<close>, \<open>.kml\<close>); a
  destination that matches no entry resolves to \<open>ESRI Shapefile\<close>.
\<close>

theorem set_output_file_type:
  "resolved_file_type (set_output output_ds file_type table_name srs st) =
     Some (if truthy file_type then the file_type
           else first_match file_type_table (destination_text output_ds)) \<and>
   (\<not> truthy file_type \<and> list_all (\<lambda>(m, t). \<not> matches m (destination_text output_ds)) file_type_table
      \<longrightarrow> resolved_file_type (set_output output_ds file_type table_name srs st) = Some ''ESRI Shapefile'')"
  using first_match_default [of "destination_text output_ds" file_type_table]
  by (simp add: set_output_resolved infer_file_type_table)

theorem set_output_file_type_witness:
  "resolved_file_type (set_output (Inl ''Roads.GeoJSON'') None None None (init OGR2OGR_PATH [])) = Some ''GeoJSON'' \<and>
   resolved_file_type (set_output (Inl ''out.xyz'') None None None (init OGR2OGR_PATH [])) = Some ''ESRI Shapefile'' \<and>
   resolved_file_type (set_output (Inl ''out.shp'') (Some ''GPKG'') None None (init OGR2OGR_PATH [])) = Some ''GPKG''"
  using set_output_file_type [of "Inl ''Roads.GeoJSON''" None None None "init OGR2OGR_PATH []"]
    set_output_file_type [of "Inl ''out.xyz''" None None None "init OGR2OGR_PATH []"]
    set_output_file_type [of "Inl ''out.shp''" "Some ''GPKG''" None None "init OGR2OGR_PATH []"]
  by (simp add: file_type_table_def destination_text_def lower_def lower_char_def
      ascii_uppercase_def ascii_lowercase_def endswith_def startswith_def)

subsection \<open>The three option layers\<close>

text \<open>
  Claim C3. For the dataset creation, the layer creation and the config options alike, the
  dictionary that the getter returns holds under every key the user's value when the user's
  dictionary has the key and the internal value otherwise; the setter changes no dictionary
  and not the reference to the internal one, it only makes the given dictionary the user's
  one, so that reading after writing merges the internal dictionary with the new one.
\<close>

theorem option_layers_merge:
  assumes "valid_refs (h, self)" and "d < length h"
  shows
    "getter_lookup dataset_creation_options (h, self) k =
       (case DAList.lookup (h ! priv_dataset_creation_options self) k of
          Some v \<Rightarrow> Some v
        | None \<Rightarrow> DAList.lookup (h ! priv_dataset_creation_options_internal self) k) \<and>
     getter_lookup layer_creation_options (h, self) k =
       (case DAList.lookup (h ! priv_layer_creation_options self) k of
          Some v \<Rightarrow> Some v
        | None \<Rightarrow> DAList.lookup (h ! priv_layer_creation_options_internal self) k) \<and>
     getter_lookup config_options (h, self) k =
       (case DAList.lookup (h ! priv_config_options self) k of
          Some v \<Rightarrow> Some v
        | None \<Rightarrow> DAList.lookup (h ! priv_config_options_internal self) k) \<and>
     fst (set_dataset_creation_options d (h, self)) = h \<and>
     priv_dataset_creation_options_internal (snd (set_dataset_creation_options d (h, self))) =
       priv_dataset_creation_options_internal self \<and>
     getter_lookup dataset_creation_options (set_dataset_creation_options d (h, self)) k =
       (case DAList.lookup (h ! d) k of
          Some v \<Rightarrow> Some v
        | None \<Rightarrow> DAList.lookup (h ! priv_dataset_creation_options_internal self) k) \<and>
     fst (set_layer_creation_options d (h, self)) = h \<and>
     priv_layer_creation_options_internal (snd (set_layer_creation_options d (h, self))) =
       priv_layer_creation_options_internal self \<and>
     getter_lookup layer_creation_options (set_layer_creation_options d (h, self)) k =
       (case DAList.lookup (h ! d) k of
          Some v \<Rightarrow> Some v
        | None \<Rightarrow> DAList.lookup (h ! priv_layer_creation_options_internal self) k) \<and>
     fst (set_config_options d (h, self)) = h \<and>
     priv_config_options_internal (snd (set_config_options d (h, self))) =
       priv_config_options_internal self \<and>
     getter_lookup config_options (set_config_options d (h, self)) k =
       (case DAList.lookup (h ! d) k of
          Some v \<Rightarrow> Some v
        | None \<Rightarrow> DAList.lookup (h ! priv_config_options_internal self) k)"
proof -
  have w1: "getter_lookup dataset_creation_options (set_dataset_creation_options d (h, self)) k =
       (case DAList.lookup (h ! d) k of
          Some v \<Rightarrow> Some v
        | None \<Rightarrow> DAList.lookup (h ! priv_dataset_creation_options_internal self) k)"
    using getter_lookup_dsco [of h "self\<lparr>priv_dataset_creation_options := d\<rparr>" k]
      setters_valid(1) [OF assms]
    by (simp add: set_dataset_creation_options_def cong: option.case_cong)
  have w2: "getter_lookup layer_creation_options (set_layer_creation_options d (h, self)) k =
       (case DAList.lookup (h ! d) k of
          Some v \<Rightarrow> Some v
        | None \<Rightarrow> DAList.lookup (h ! priv_layer_creation_options_internal self) k)"
    using getter_lookup_lco [of h "self\<lparr>priv_layer_creation_options := d\<rparr>" k]
      setters_valid(2) [OF assms]
    by (simp add: set_layer_creation_options_def cong: option.case_cong)
  have w3: "getter_lookup config_options (set_config_options d (h, self)) k =
       (case DAList.lookup (h ! d) k of
          Some v \<Rightarrow> Some v
        | None \<Rightarrow> DAList.lookup (h ! priv_config_options_internal self) k)"
    using getter_lookup_config [of h "self\<lparr>priv_config_options := d\<rparr>" k]
      setters_valid(3) [OF assms]
    by (simp add: set_config_options_def cong: option.case_cong)
  show ?thesis
    by (simp only: getter_lookup_dsco [OF assms(1)] getter_lookup_lco [OF assms(1)]
        getter_lookup_config [OF assms(1)] setters_frame w1 w2 w3 simp_thms)
qed

theorem option_layers_merge_witness:
  "getter_lookup dataset_creation_options (override_heap, example_self) ''SPATIALITE'' = Some ''YES'' \<and>
   getter_lookup dataset_creation_options
     (set_dataset_creation_options 6 (override_heap, example_self)) ''SPATIALITE'' = Some ''NO'' \<and>
   getter_lookup config_options
     (set_config_options 6 (override_heap, example_self)) ''SHAPE_ENCODING'' = Some ''latin1'' \<and>
   fst (set_dataset_creation_options 6 (override_heap, example_self)) = override_heap"
proof -
  have v: "valid_refs (override_heap, example_self)"
    by (simp add: valid_refs_def override_heap_def example_self_def)
  have d: "6 < length override_heap" by (simp add: override_heap_def)
  have cells: "override_heap ! 0 = DAList.empty"
    "override_heap ! 2 = DAList.update ''SPATIALITE'' ''YES'' DAList.empty"
    "override_heap ! 4 = DAList.empty"
    "override_heap ! 5 = DAList.update ''SHAPE_ENCODING'' ''latin1'' DAList.empty"
    "override_heap ! 6 = DAList.update ''METADATA'' ''NO'' (DAList.update ''SPATIALITE'' ''NO'' DAList.empty)"
    by (simp_all add: override_heap_def)
  have refs: "priv_dataset_creation_options example_self = 0"
    "priv_dataset_creation_options_internal example_self = 2"
    "priv_config_options example_self = 4"
    "priv_config_options_internal example_self = 5"
    by (simp_all add: example_self_def)
  show ?thesis
    using option_layers_merge [OF v d, of "''SPATIALITE''"]
      option_layers_merge [OF v d, of "''SHAPE_ENCODING''"]
    by (simp add: refs cells DAList.lookup_update)
qed

subsection \<open>SQLite and the SPATIALITE option\<close>

text \<open>
  With \<open>file_type="SQLite"\<close> given, \<open>set_output\<close> stores \<open>SPATIALITE=YES\<close> in the
  internal dataset creation options, and the merged options hold it unless the user's
  dictionary (a different object) has the key.
\<close>

lemma set_output_explicit_sqlite:
  assumes "valid_refs (h, self)"
    and "priv_dataset_creation_options self \<noteq> priv_dataset_creation_options_internal self"
  shows "getter_lookup dataset_creation_options
           (set_output output_ds (Some ''SQLite'') table_name srs (h, self)) ''SPATIALITE'' =
         (case DAList.lookup (h ! priv_dataset_creation_options self) ''SPATIALITE'' of
            Some v \<Rightarrow> Some v
          | None \<Rightarrow> Some ''YES'')"
proof -
  let ?h = "dict_setitem (priv_dataset_creation_options_internal self) ''SPATIALITE'' ''YES'' h"
  let ?out = "\<lparr>out_ds = (case output_ds of Inr c \<Rightarrow> c | Inl path \<Rightarrow> FileConnectionString path),
               out_file_type = ''SQLite'', out_table = table_name, out_srs = srs\<rparr>"
  have s: "set_output output_ds (Some ''SQLite'') table_name srs (h, self) =
             (?h, self\<lparr>output_cfg := Some ?out\<rparr>)"
    by (simp add: set_output_def Let_def)
  have v: "valid_refs (?h, self\<lparr>output_cfg := Some ?out\<rparr>)"
    using assms(1) by (simp add: valid_refs_def dict_setitem_def)
  show ?thesis
    unfolding s getter_lookup_dsco [OF v]
    using assms
    by (simp add: valid_refs_def dict_setitem_def DAList.lookup_update cong: option.case_cong)
qed

text \<open>
  Claim C4, which the code does not meet. When the format is inferred from a destination
  that ends in \<open>.sqlite\<close>, the format resolves to \<open>SQLite\<close>, but \<open>set_output\<close> compares
  the parameter \<open>file_type\<close>, which is \<open>None\<close>, and stores nothing: the merged dataset
  creation options have no \<open>SPATIALITE\<close> entry and no \<open>-dsco\<close> reaches the argument
  list.
\<close>

theorem sqlite_suffix_without_spatialite:
  "resolved_file_type sqlite_suffix_builder = Some ''SQLite'' \<and>
   getter_lookup dataset_creation_options sqlite_suffix_builder ''SPATIALITE'' = None \<and>
   executed_args path_missing sqlite_suffix_builder =
     Inr [''/usr/bin/ogr2ogr'', ''-f'', ''SQLite'', ''-nln'', ''in.shp'', ''out.sqlite'', ''in.shp'']"
proof -
  let ?inp = "file_input ''in.shp'' None" and ?out = "file_output ''out.sqlite'' ''SQLite''"
  have a: "resolved_file_type sqlite_suffix_builder = Some ''SQLite''"
    by (simp add: plain_builders resolved_file_type_def plain_cfg file_fields)
  have b: "getter_lookup dataset_creation_options sqlite_suffix_builder ''SPATIALITE'' = None"
    by (simp add: plain_builders getter_lookup_dsco [OF plain_valid])
       (simp add: plain_self_def plain_heap_def)
  have c: "executed_args path_missing sqlite_suffix_builder =
     Inr [''/usr/bin/ogr2ogr'', ''-f'', ''SQLite'', ''-nln'', ''in.shp'', ''out.sqlite'', ''in.shp'']"
    by (simp add: plain_builders executed_args_eq [OF plain_valid plain_cfg] flag_args_def
        plain_sections file_fields t_srs_args_def s_srs_args_def format_args_def nln_args_def
        nlt_args_def resolved_geom_type_def positional_args_def basename_def)
  from a b c show ?thesis by simp
qed

subsection \<open>The name of the output layer\<close>

text \<open>
  Claim C5 as stated fails on its second example: for the input file \<open>/data/roads.shp\<close>
  and no table name, the value after \<open>-nln\<close> is \<open>roads.shp\<close>, the base name with its
  extension, and not \<open>roads\<close>.
\<close>

theorem nln_roads_counterexample:
  "executed_args path_missing roads_builder =
     Inr [''/usr/bin/ogr2ogr'', ''-f'', ''ESRI Shapefile'', ''-nln'', ''roads.shp'',
          ''out.shp'', ''/data/roads.shp''] \<and>
   ''roads.shp'' \<noteq> ''roads''"
  by (simp add: plain_builders executed_args_eq [OF plain_valid plain_cfg] flag_args_def
        plain_sections file_fields t_srs_args_def s_srs_args_def format_args_def nln_args_def
        nlt_args_def resolved_geom_type_def positional_args_def basename_def)

text \<open>
  Claim C5, amended. The value after \<open>-nln\<close> is the output table name if one is given,
  else the input table name if one is given, else, for a file input only, the base name of
  the input path: the directories are stripped and the extension is kept. With the input
  table \<open>parcels\<close> and no output table the value is \<open>parcels\<close>; with the input file
  \<open>/data/roads.shp\<close> and no table name it is \<open>roads.shp\<close>.
\<close>

theorem nln_precedence:
  assumes "valid_refs (h, self)" "input_cfg self = Some inp" "output_cfg self = Some out"
  shows "executed_args path_exists (h, self) =
           Inr (([command self] @ ds_mode_args self @ layer_mode_args self @
                 t_srs_args out @ s_srs_args inp @ options_args (h, self) out) @
                (if truthy (out_table out) then [''-nln'', the (out_table out)]
                 else if truthy (in_table inp) then [''-nln'', the (in_table inp)]
                 else if cs_is_file (in_ds inp) then [''-nln'', basename (cs_encode (in_ds inp))]
                 else []) @
                (nlt_args self out @ positional_args cs_encode out inp))"
  by (simp add: executed_args_eq [OF assms] flag_args_def options_args_def nln_args_def)

theorem nln_precedence_witness:
  "executed_args path_missing parcels_builder =
     Inr [''/usr/bin/ogr2ogr'', ''-f'', ''ESRI Shapefile'', ''-nln'', ''parcels'',
          ''out.shp'', ''/data/cadastre.gml'', ''parcels''] \<and>
   executed_args path_present roads_builder =
     Inr [''/usr/bin/ogr2ogr'', ''-f'', ''ESRI Shapefile'', ''-nln'', ''roads.shp'',
          ''out.shp'', ''/data/roads.shp'']"
  using nln_precedence [OF plain_valid plain_cfg, of path_missing
          "file_input ''/data/cadastre.gml'' (Some ''parcels'')" "file_output ''out.shp'' ''ESRI Shapefile''"]
        nln_precedence [OF plain_valid plain_cfg, of path_present
          "file_input ''/data/roads.shp'' None" "file_output ''out.shp'' ''ESRI Shapefile''"]
  by (simp add: plain_builders plain_sections file_fields t_srs_args_def s_srs_args_def
      options_args_def format_args_def nlt_args_def resolved_geom_type_def positional_args_def
      basename_def)

subsection \<open>The update flag\<close>

lemma layer_mode_no_update: "''-update'' \<notin> set (layer_mode_args self)"
  by (simp add: layer_mode_args_def)

lemma count_ds_mode_args:
  "count_list (ds_mode_args self) ''-update'' =
     (if data_source_mode self = MODE_DS_UPDATE \<or> data_source_mode self = MODE_DS_CREATE_OR_UPDATE
      then 1 else 0)"
  by (simp add: ds_mode_args_def)

text \<open>
  Claim C6. With the data source mode \<open>UPDATE\<close> the argument list has exactly one
  \<open>-update\<close>; with \<open>CREATE_OR_UPDATE\<close> it has exactly one as well, whatever
  \<open>os.path.exists\<close> answers; with \<open>CREATE\<close> it has none. The mode contributes one token
  or none, and every other occurrence of the token is a string of the caller (the executable,
  an SRS, a file type, an option, a name, a destination): the number of \<open>-update\<close> in the
  list is the contribution of the mode plus their number in the other sections, and when
  the other sections do not contain the token the counts are 1, 1 and 0.
\<close>

theorem update_flag_count:
  assumes "valid_refs (h, self)" "input_cfg self = Some inp" "output_cfg self = Some out"
  shows "\<exists>args. executed_args path_exists (h, self) = Inr args \<and>
           count_list args ''-update'' =
             (if data_source_mode self = MODE_DS_UPDATE \<or>
                 data_source_mode self = MODE_DS_CREATE_OR_UPDATE then 1 else 0) +
             count_list ([command self] @ t_srs_args out @ s_srs_args inp @
                         options_args (h, self) out @ nln_args out inp @ nlt_args self out @
                         positional_args cs_encode out inp) ''-update'' \<and>
           (''-update'' \<notin> set ([command self] @ t_srs_args out @ s_srs_args inp @
                                options_args (h, self) out @ nln_args out inp @
                                nlt_args self out @ positional_args cs_encode out inp) \<longrightarrow>
              (data_source_mode self = MODE_DS_UPDATE \<longrightarrow> count_list args ''-update'' = 1) \<and>
              (data_source_mode self = MODE_DS_CREATE_OR_UPDATE \<longrightarrow> count_list args ''-update'' = 1) \<and>
              (data_source_mode self = MODE_DS_CREATE \<longrightarrow> count_list args ''-update'' = 0))"
proof -
  let ?rest = "t_srs_args out @ s_srs_args inp @ options_args (h, self) out @
               nln_args out inp @ nlt_args self out @ positional_args cs_encode out inp"
  let ?args = "[command self] @ ds_mode_args self @ layer_mode_args self @ ?rest"
  let ?n = "if data_source_mode self = MODE_DS_UPDATE \<or>
               data_source_mode self = MODE_DS_CREATE_OR_UPDATE then 1 else 0 :: nat"
  have e: "executed_args path_exists (h, self) = Inr ?args"
    by (simp add: executed_args_eq [OF assms] flag_args_def options_args_def)
  have l0: "count_list (layer_mode_args self) ''-update'' = 0"
    using layer_mode_no_update [of self] count_list_0_iff [of "layer_mode_args self" "''-update''"]
    by blast
  have c: "count_list ?args ''-update'' = ?n + count_list ([command self] @ ?rest) ''-update''"
    unfolding count_list_append count_ds_mode_args l0 by simp
  have z: "''-update'' \<notin> set ([command self] @ ?rest) \<Longrightarrow>
             count_list ([command self] @ ?rest) ''-update'' = 0"
    using count_list_0_iff [of "[command self] @ ?rest" "''-update''"] by blast
  have m: "MODE_DS_CREATE \<noteq> MODE_DS_UPDATE" "MODE_DS_CREATE \<noteq> MODE_DS_CREATE_OR_UPDATE"
    by (simp_all add: MODE_DS_CREATE_def MODE_DS_UPDATE_def MODE_DS_CREATE_OR_UPDATE_def)
  have r: "''-update'' \<notin> set ([command self] @ ?rest) \<longrightarrow>
              (data_source_mode self = MODE_DS_UPDATE \<longrightarrow> count_list ?args ''-update'' = 1) \<and>
              (data_source_mode self = MODE_DS_CREATE_OR_UPDATE \<longrightarrow> count_list ?args ''-update'' = 1) \<and>
              (data_source_mode self = MODE_DS_CREATE \<longrightarrow> count_list ?args ''-update'' = 0)"
    using z m unfolding c by auto
  from e c r show ?thesis by blast
qed

theorem update_flag_count_witness:
  "(\<exists>args. executed_args path_missing example_builder = Inr args \<and> count_list args ''-update'' = 1) \<and>
   (\<exists>args. executed_args path_present example_builder = Inr args \<and> count_list args ''-update'' = 1) \<and>
   (\<exists>args. executed_args path_missing roads_builder = Inr args \<and> count_list args ''-update'' = 0)"
proof -
  have m: "data_source_mode example_self = MODE_DS_CREATE_OR_UPDATE"
    "data_source_mode (plain_self (file_input ''/data/roads.shp'' None)
                         (file_output ''out.shp'' ''ESRI Shapefile'')) = MODE_DS_CREATE"
    "MODE_DS_CREATE \<noteq> MODE_DS_UPDATE" "MODE_DS_CREATE \<noteq> MODE_DS_CREATE_OR_UPDATE"
    by (simp_all add: example_self_def plain_self_def MODE_DS_CREATE_def MODE_DS_UPDATE_def
        MODE_DS_CREATE_OR_UPDATE_def)
  have 1: "\<exists>args. executed_args path_missing example_builder = Inr args \<and>
             count_list args ''-update'' = 1"
    using update_flag_count [where path_exists = path_missing, OF example_valid example_cfg]
    by (auto simp add: example_builder_eq example_sections options_args_def m)
  have 2: "\<exists>args. executed_args path_present example_builder = Inr args \<and>
             count_list args ''-update'' = 1"
    using update_flag_count [where path_exists = path_present, OF example_valid example_cfg]
    by (auto simp add: example_builder_eq example_sections options_args_def m)
  have 3: "\<exists>args. executed_args path_missing roads_builder = Inr args \<and>
             count_list args ''-update'' = 0"
    using update_flag_count [where path_exists = path_missing and h = plain_heap
        and inp = "file_input ''/data/roads.shp'' None"
        and out = "file_output ''out.shp'' ''ESRI Shapefile''", OF plain_valid plain_cfg]
    by (auto simp add: plain_builders plain_sections file_fields options_args_def m
        t_srs_args_def s_srs_args_def format_args_def nln_args_def nlt_args_def
        resolved_geom_type_def positional_args_def basename_def)
  from 1 2 3 show ?thesis by blast
qed

subsection \<open>The spatial reference flags\<close>

text \<open>
  Claim C7. When an input SRS is set, the argument list has, right after the mode flags and
  the \<open>-t_srs\<close> section, \<open>-a_srs\<close> and \<open>-s_srs\<close>, each followed by the input SRS; when an
  output SRS is set, \<open>-t_srs\<close> is followed by the output SRS.
\<close>

theorem srs_flags:
  assumes "valid_refs (h, self)" "input_cfg self = Some inp" "output_cfg self = Some out"
  shows "(\<forall>s. in_srs inp = Some s \<and> s \<noteq> [] \<longrightarrow>
            executed_args path_exists (h, self) =
              Inr (([command self] @ ds_mode_args self @ layer_mode_args self @ t_srs_args out) @
                   [''-a_srs'', s, ''-s_srs'', s] @
                   (options_args (h, self) out @ nln_args out inp @ nlt_args self out @
                    positional_args cs_encode out inp))) \<and>
         (\<forall>t. out_srs out = Some t \<and> t \<noteq> [] \<longrightarrow>
            executed_args path_exists (h, self) =
              Inr (([command self] @ ds_mode_args self @ layer_mode_args self) @
                   [''-t_srs'', t] @
                   (s_srs_args inp @ options_args (h, self) out @ nln_args out inp @
                    nlt_args self out @ positional_args cs_encode out inp)))"
  by (simp add: executed_args_eq [OF assms] flag_args_def options_args_def t_srs_args_def
      s_srs_args_def)

theorem srs_flags_witness:
  "executed_args path_missing example_builder =
     Inr ([''/usr/bin/ogr2ogr'', ''-update'', ''-append'', ''-t_srs'', ''EPSG:4326''] @
          [''-a_srs'', ''EPSG:25830'', ''-s_srs'', ''EPSG:25830''] @
          [''-f'', ''SQLite'', ''-dsco'', ''SPATIALITE=YES'',
           ''--config'', ''SHAPE_ENCODING'', ''latin1'',
           ''-nln'', ''parcels'', ''out.db'', ''/data/roads.shp'', ''parcels''])"
  using srs_flags [OF example_valid example_cfg, of path_missing]
  by (simp add: example_builder_eq example_sections example_fields options_args_def)

subsection \<open>The geometry type\<close>

text \<open>
  Claim C8 as stated fails before \<open>set_output\<close>: the getter reads \<open>self.out_file_type\<close>
  first, an attribute that only \<open>set_output\<close> assigns, so on a new builder it raises
  \<open>AttributeError\<close>, with an override (\<open>POINT\<close>) as well as without one.
\<close>

theorem geom_type_before_set_output_counterexample:
  "priv_geom_type (snd (set_geom_type (Some ''POINT'') (init OGR2OGR_PATH []))) = Some ''POINT'' \<and>
   geom_type (snd (set_geom_type (Some ''POINT'') (init OGR2OGR_PATH []))) = Inl AttributeError \<and>
   geom_type (snd (init OGR2OGR_PATH [])) = Inl AttributeError"
  by (simp add: set_geom_type_def init_def new_dict_def geom_type_def)

text \<open>
  Claim C8, amended. Once \<open>set_output\<close> has been called, \<open>geom_type\<close> returns the override
  when one is set (not \<open>None\<close>, not empty); without an override it returns
  \<open>PROMOTE_TO_MULTI\<close> when the resolved format is \<open>PostgreSQL\<close>, and otherwise the unset
  value it holds. Before \<open>set_output\<close> it raises \<open>AttributeError\<close>.
\<close>

theorem geom_type_accessor:
  "(output_cfg self = None \<longrightarrow> geom_type self = Inl AttributeError) \<and>
   (\<forall>out. output_cfg self = Some out \<longrightarrow>
      (truthy (priv_geom_type self) \<longrightarrow> geom_type self = Inr (priv_geom_type self)) \<and>
      (\<not> truthy (priv_geom_type self) \<and> out_file_type out = ''PostgreSQL'' \<longrightarrow>
         geom_type self = Inr (Some ''PROMOTE_TO_MULTI'')) \<and>
      (\<not> truthy (priv_geom_type self) \<and> out_file_type out \<noteq> ''PostgreSQL'' \<longrightarrow>
         geom_type self = Inr (priv_geom_type self)) \<and>
      (priv_geom_type self = None \<and> out_file_type out \<noteq> ''PostgreSQL'' \<longrightarrow>
         geom_type self = Inr None))"
  by (cases "output_cfg self") (simp_all add: geom_type_def)

theorem geom_type_accessor_witness:
  "geom_type (snd pg_builder) = Inr (Some ''PROMOTE_TO_MULTI'') \<and>
   geom_type (snd (set_geom_type (Some ''POINT'') pg_builder)) = Inr (Some ''POINT'') \<and>
   geom_type (snd roads_builder) = Inr None \<and>
   geom_type (snd (set_geom_type (Some ''POINT'') (init OGR2OGR_PATH []))) = Inl AttributeError"
proof -
  let ?pg = "plain_self (file_input ''/data/roads.shp'' None) (pg_output (Some ''roads''))"
  let ?shp = "plain_self (file_input ''/data/roads.shp'' None) (file_output ''out.shp'' ''ESRI Shapefile'')"
  let ?new = "snd (set_geom_type (Some ''POINT'') (init OGR2OGR_PATH []))"
  have g: "priv_geom_type ?pg = None" "priv_geom_type ?shp = None"
    "priv_geom_type (?pg\<lparr>priv_geom_type := Some ''POINT''\<rparr>) = Some ''POINT''"
    "output_cfg (?pg\<lparr>priv_geom_type := Some ''POINT''\<rparr>) = Some (pg_output (Some ''roads''))"
    by (simp_all add: plain_self_def)
  have n: "output_cfg ?new = None"
    by (simp add: set_geom_type_def init_def new_dict_def)
  have 1: "geom_type ?pg = Inr (Some ''PROMOTE_TO_MULTI'')"
    using geom_type_accessor [of ?pg] by (simp add: plain_cfg g pg_fields)
  have 2: "geom_type (?pg\<lparr>priv_geom_type := Some ''POINT''\<rparr>) = Inr (Some ''POINT'')"
    using geom_type_accessor [of "?pg\<lparr>priv_geom_type := Some ''POINT''\<rparr>"] by (simp add: g)
  have 3: "geom_type ?shp = Inr None"
    using geom_type_accessor [of ?shp] by (simp add: plain_cfg g file_fields)
  have 4: "geom_type ?new = Inl AttributeError"
    using geom_type_accessor [of ?new] n by simp
  from 1 2 3 4 show ?thesis
    by (simp add: pg_builder_eq plain_builders set_geom_type_def)
qed

subsection \<open>The list for the log and the list for the execution\<close>

lemma positional_length:
  "length (positional_args render out inp) = (if truthy (in_table inp) then 3 else 2)"
  by (simp add: positional_args_def)

lemma positional_nth:
  "positional_args render out inp ! 0 = render (out_ds out)"
  "positional_args render out inp ! Suc 0 = render (in_ds inp)"
  "truthy (in_table inp) \<Longrightarrow> positional_args render out inp ! Suc (Suc 0) = the (in_table inp)"
  by (simp_all add: positional_args_def)

lemma parallel_lists:
  fixes F :: "string list"
  assumes len: "length P = length Q" and two: "2 \<le> length P"
    and same: "\<And>j. j < length P \<Longrightarrow> 2 \<le> j \<Longrightarrow> P ! j = Q ! j"
  shows "length (F @ P) = length (F @ Q)"
    and "\<forall>i < length (F @ P). i \<noteq> length (F @ P) - length P \<and> i \<noteq> length (F @ P) - length P + 1
            \<longrightarrow> (F @ P) ! i = (F @ Q) ! i"
    and "(F @ P) ! (length (F @ P) - length P) = P ! 0"
    and "(F @ P) ! (length (F @ P) - length P + 1) = P ! 1"
    and "(F @ Q) ! (length (F @ P) - length P) = Q ! 0"
    and "(F @ Q) ! (length (F @ P) - length P + 1) = Q ! 1"
proof -
  show "length (F @ P) = length (F @ Q)" using len by simp
  show "\<forall>i < length (F @ P). i \<noteq> length (F @ P) - length P \<and> i \<noteq> length (F @ P) - length P + 1
            \<longrightarrow> (F @ P) ! i = (F @ Q) ! i"
  proof (intro allI impI)
    fix i assume i: "i < length (F @ P)"
      and ne: "i \<noteq> length (F @ P) - length P \<and> i \<noteq> length (F @ P) - length P + 1"
    show "(F @ P) ! i = (F @ Q) ! i"
    proof (cases "i < length F")
      case True
      then show ?thesis by (simp add: nth_append)
    next
      case False
      with ne have "2 \<le> i - length F" by simp arith
      moreover from False i have "i - length F < length P" by simp
      ultimately have "P ! (i - length F) = Q ! (i - length F)" by (simp add: same)
      with False show ?thesis by (simp add: nth_append)
    qed
  qed
  show "(F @ P) ! (length (F @ P) - length P) = P ! 0" by (simp add: nth_append)
  show "(F @ P) ! (length (F @ P) - length P + 1) = P ! 1" by (simp add: nth_append)
  show "(F @ Q) ! (length (F @ P) - length P) = Q ! 0" by (simp add: nth_append)
  show "(F @ Q) ! (length (F @ P) - length P + 1) = Q ! 1" by (simp add: nth_append)
qed

text \<open>
  Claim C9. \<open>args\<close> and \<open>safe_args\<close> have the same length and the same token at every
  position but the two of the destinations, where \<open>args\<close> has \<open>encode()\<close> of the output
  and of the input and \<open>safe_args\<close> has their \<open>unicode\<close> form; \<open>_do_execute\<close> receives
  \<open>args\<close>, and \<open>safe_args\<close> only reaches the log.
\<close>

theorem logging_and_execution_lists:
  assumes "valid_refs (h, self)" "input_cfg self = Some inp" "output_cfg self = Some out"
  shows "\<exists>args safe_args.
           fst (assemble path_exists (h, self)) = Inr (args, safe_args) \<and>
           fst (execute path_exists do_execute (h, self)) =
             Inr \<lparr>logged = join '' '' safe_args, returned = do_execute args\<rparr> \<and>
           length args = length safe_args \<and>
           (\<forall>i < length args.
              i \<noteq> length args - (if truthy (in_table inp) then 3 else 2) \<and>
              i \<noteq> length args - (if truthy (in_table inp) then 3 else 2) + 1
              \<longrightarrow> args ! i = safe_args ! i) \<and>
           args ! (length args - (if truthy (in_table inp) then 3 else 2)) = cs_encode (out_ds out) \<and>
           args ! (length args - (if truthy (in_table inp) then 3 else 2) + 1) = cs_encode (in_ds inp) \<and>
           safe_args ! (length args - (if truthy (in_table inp) then 3 else 2)) = cs_unicode (out_ds out) \<and>
           safe_args ! (length args - (if truthy (in_table inp) then 3 else 2) + 1) = cs_unicode (in_ds inp)"
proof -
  let ?F = "flag_args (h, self) out inp"
  let ?P = "positional_args cs_encode out inp" and ?Q = "positional_args cs_unicode out inp"
  have len: "length ?P = length ?Q" by (simp add: positional_length)
  have two: "2 \<le> length ?P" by (simp add: positional_length)
  have same: "\<And>j. j < length ?P \<Longrightarrow> 2 \<le> j \<Longrightarrow> ?P ! j = ?Q ! j"
    by (simp add: positional_args_def nth_Cons' split: if_splits)
  note pl = parallel_lists [of ?P ?Q ?F, OF len two same]
  have lp: "length ?P = (if truthy (in_table inp) then 3 else 2)" by (rule positional_length)
  have a: "fst (assemble path_exists (h, self)) = Inr (?F @ ?P, ?F @ ?Q)"
    by (simp add: assemble_eq [OF assms])
  have b: "fst (execute path_exists do_execute (h, self)) =
             Inr \<lparr>logged = join '' '' (?F @ ?Q), returned = do_execute (?F @ ?P)\<rparr>"
    by (simp add: execute_eq [OF assms])
  have n0: "?P ! 0 = cs_encode (out_ds out)" "?P ! 1 = cs_encode (in_ds inp)"
    "?Q ! 0 = cs_unicode (out_ds out)" "?Q ! 1 = cs_unicode (in_ds inp)"
    by (simp_all add: positional_args_def)
  show ?thesis
    apply (rule exI [of _ "?F @ ?P"], rule exI [of _ "?F @ ?Q"])
    using a b pl(1) pl(2) pl(3) pl(4) pl(5) pl(6) unfolding lp n0
    apply (intro conjI)
            apply assumption+
    done
qed

theorem logging_and_execution_lists_witness:
  "fst (assemble path_missing pg_builder) =
     Inr ([''/usr/bin/ogr2ogr'', ''-f'', ''PostgreSQL'', ''-nln'', ''roads'',
           ''-nlt'', ''PROMOTE_TO_MULTI'', ''PG:dbname=gis password=secret'', ''/data/roads.shp''],
          [''/usr/bin/ogr2ogr'', ''-f'', ''PostgreSQL'', ''-nln'', ''roads'',
           ''-nlt'', ''PROMOTE_TO_MULTI'', ''PG:dbname=gis password=xxxxxx'', ''/data/roads.shp'']) \<and>
   fst (execute path_missing (\<lambda>args. args) pg_builder) =
     Inr \<lparr>logged = ''/usr/bin/ogr2ogr -f PostgreSQL -nln roads -nlt PROMOTE_TO_MULTI PG:dbname=gis password=xxxxxx /data/roads.shp'',
          returned = [''/usr/bin/ogr2ogr'', ''-f'', ''PostgreSQL'', ''-nln'', ''roads'',
           ''-nlt'', ''PROMOTE_TO_MULTI'', ''PG:dbname=gis password=secret'', ''/data/roads.shp'']\<rparr>"
proof -
  let ?inp = "file_input ''/data/roads.shp'' None" and ?out = "pg_output (Some ''roads'')"
  let ?L = "[''/usr/bin/ogr2ogr'', ''-f'', ''PostgreSQL'', ''-nln'', ''roads'',
           ''-nlt'', ''PROMOTE_TO_MULTI'', ''PG:dbname=gis password=secret'', ''/data/roads.shp'']"
  let ?S = "[''/usr/bin/ogr2ogr'', ''-f'', ''PostgreSQL'', ''-nln'', ''roads'',
           ''-nlt'', ''PROMOTE_TO_MULTI'', ''PG:dbname=gis password=xxxxxx'', ''/data/roads.shp'']"
  have a: "fst (assemble path_missing pg_builder) = Inr (?L, ?S)"
    by (simp add: pg_builder_eq assemble_eq [OF plain_valid plain_cfg] flag_args_def
        plain_sections file_fields pg_fields t_srs_args_def s_srs_args_def format_args_def
        nln_args_def nlt_args_def resolved_geom_type_def positional_args_def)
  from logging_and_execution_lists [OF plain_valid plain_cfg, of path_missing ?inp ?out "\<lambda>args. args"]
  obtain args safe_args where
    1: "fst (assemble path_missing (plain_heap, plain_self ?inp ?out)) = Inr (args, safe_args)"
    and 2: "fst (execute path_missing (\<lambda>args. args) (plain_heap, plain_self ?inp ?out)) =
             Inr \<lparr>logged = join '' '' safe_args, returned = args\<rparr>"
    by blast
  from 1 a have eq: "args = ?L" "safe_args = ?S" by (simp_all add: pg_builder_eq)
  have j: "join '' '' ?S = ''/usr/bin/ogr2ogr -f PostgreSQL -nln roads -nlt PROMOTE_TO_MULTI PG:dbname=gis password=xxxxxx /data/roads.shp''"
    by simp
  from a 2 show ?thesis unfolding eq j by (simp add: pg_builder_eq)
qed

subsection \<open>execute leaves the configuration alone\<close>

text \<open>
  Claim C10. After \<open>execute\<close> the builder has the fields it had, and every dictionary
  that existed before, so both layers of the three option pairs, has the content it had:
  the store has only grown by the three merged copies. Executing again therefore gives the
  same result.
\<close>

theorem execute_frame:
  assumes "valid_refs (h, self)"
  shows "snd (snd (execute path_exists do_execute (h, self))) = self \<and>
         take (length h) (fst (snd (execute path_exists do_execute (h, self)))) = h \<and>
         fst (execute path_exists do_execute (snd (execute path_exists do_execute (h, self)))) =
           fst (execute path_exists do_execute (h, self))"
proof (cases "input_cfg self = None \<or> output_cfg self = None")
  case True
  then show ?thesis by (simp add: execute_unconfigured)
next
  case False
  then obtain inp out where i: "input_cfg self = Some inp" and out: "output_cfg self = Some out"
    by auto
  let ?xs = "[merged_dataset_creation_options (h, self), merged_layer_creation_options (h, self),
              merged_config_options (h, self)]"
  have v': "valid_refs (h @ ?xs, self)" by (rule valid_refs_grow [OF assms])
  have s: "snd (execute path_exists do_execute (h, self)) = (h @ ?xs, self)"
    by (simp add: execute_eq [OF assms i out])
  have same: "flag_args (h @ ?xs, self) out inp = flag_args (h, self) out inp"
    by (simp add: flag_args_def dsco_args_def lco_args_def config_args_def merged_grow [OF assms])
  show ?thesis
    unfolding s
    by (simp add: execute_eq [OF v' i out] execute_eq [OF assms i out] same)
qed

theorem execute_frame_witness:
  "snd (snd (execute path_missing (\<lambda>args. args) example_builder)) = snd example_builder \<and>
   take 6 (fst (snd (execute path_missing (\<lambda>args. args) example_builder))) = fst example_builder \<and>
   fst (execute path_missing (\<lambda>args. args)
          (snd (execute path_missing (\<lambda>args. args) example_builder))) =
     fst (execute path_missing (\<lambda>args. args) example_builder)"
proof -
  have l: "length example_heap = 6" by (simp add: example_heap_def)
  show ?thesis
    using execute_frame [OF example_valid, of path_missing "\<lambda>args. args"]
    by (simp add: example_builder_eq l)
qed

end
